theory Spec2Isabelle
  imports Main
begin

section \<open>The catalog\<close>

text \<open>
  The catalog view controller of \<^verbatim>\<open>static/app.js\<close>: \<^verbatim>\<open>load\<close> fetches the catalog and rebuilds
  the visible region, and four operations post a mutation and reload.

  An item is the object \<^verbatim>\<open>{name, url}\<close>. The catalog is the object that \<^verbatim>\<open>res.json()\<close> yields,
  held as the list of pairs that \<^verbatim>\<open>Object.entries(data)\<close> enumerates: a category name with its
  array of items, in enumeration order. This is the shape the API's contract gives the
  response; a JSON value of another shape is outside the model.
\<close>

record item =
  name :: string
  url :: string

type_synonym catalog = "(string \<times> item list) list"

section \<open>The document\<close>

text \<open>
  The three closures that \<^verbatim>\<open>load\<close> assigns to \<^verbatim>\<open>onclick\<close>, each with the values it captures:
  \<^verbatim>\<open>() => deleteItem(cat, item.name)\<close> holds the category and the item's name,
  \<^verbatim>\<open>() => addItem(cat, nameInput.value, urlInput.value)\<close> holds the category and the two input
  elements (by identity: their values are read when the closure runs), and
  \<^verbatim>\<open>() => deleteCategory(cat)\<close> holds the category.
\<close>

datatype handler =
    DeleteItemClick string string
  | AddItemClick string nat nat
  | DeleteCategoryClick string

text \<open>
  An element carries its identity (\<open>ident\<close>, the number \<^verbatim>\<open>createElement\<close> drew for it) and the
  properties the script sets. Its children are text set through \<^verbatim>\<open>textContent\<close>, markup set
  through \<^verbatim>\<open>innerHTML\<close> (kept as the string handed to the browser's HTML parser), and
  appended elements.
\<close>

record props =
  ident :: nat
  tagName :: string
  placeholder :: string
  val :: string
  onclick :: "handler option"

datatype node =
    Text string
  | Html string
  | Element props "node list"

type_synonym element = "props \<times> node list"

text \<open>
  The page: the element with id \<^verbatim>\<open>content\<close>, the value of the input with id \<^verbatim>\<open>new-cat\<close>, the
  identity the next created element gets, and the nodes that have been removed from the
  container. A removed node is no longer shown, but it stays as it was for whoever still
  holds it, as a closure does. The page itself is not part of the script; both elements are
  taken to exist.
\<close>

record document =
  container :: element
  new_cat :: string
  next_id :: nat
  detached :: "node list"

definition createElement :: "string \<Rightarrow> nat \<Rightarrow> element \<times> nat" where
  "createElement t n =
     ((\<lparr>ident = n, tagName = t, placeholder = [], val = [], onclick = None\<rparr>, []), Suc n)"

definition set_textContent :: "string \<Rightarrow> element \<Rightarrow> element" where
  "set_textContent s e = (fst e, if s = [] then [] else [Text s])"

definition set_innerHTML :: "string \<Rightarrow> element \<Rightarrow> element" where
  "set_innerHTML m e = (fst e, if m = [] then [] else [Html m])"

definition set_placeholder :: "string \<Rightarrow> element \<Rightarrow> element" where
  "set_placeholder s e = ((fst e)\<lparr>placeholder := s\<rparr>, snd e)"

definition set_onclick :: "handler \<Rightarrow> element \<Rightarrow> element" where
  "set_onclick h e = ((fst e)\<lparr>onclick := Some h\<rparr>, snd e)"

definition appendChild :: "element \<Rightarrow> element \<Rightarrow> element" where
  "appendChild parent child = (fst parent, snd parent @ [Element (fst child) (snd child)])"

section \<open>Rendering\<close>

text \<open>
  The body of \<^verbatim>\<open>items.forEach(item => ...)\<close> (lines 12 to 20), on the list element and the
  identity counter.
\<close>

definition render_item :: "string \<Rightarrow> item \<Rightarrow> element \<times> nat \<Rightarrow> element \<times> nat" where
  \<open>render_item cat it = (\<lambda>(list, n).
     let (li, n) = createElement ''li'' n;
         li = set_innerHTML (''<a href="'' @ url it @ ''" target="_blank">'' @ name it @ ''</a>'') li;
         (del, n) = createElement ''button'' n;
         del = set_textContent ''Delete'' del;
         del = set_onclick (DeleteItemClick cat (name it)) del;
         li = appendChild li del;
         list = appendChild list li
     in (list, n))\<close>

text \<open>
  The body of \<^verbatim>\<open>Object.entries(data).forEach(([cat, items]) => ...)\<close> (lines 6 to 38), on the
  container and the identity counter.
\<close>

definition render_category :: "string \<times> item list \<Rightarrow> element \<times> nat \<Rightarrow> element \<times> nat" where
  "render_category = (\<lambda>(cat, items) (container, n).
     let (h, n) = createElement ''h2'' n;
         h = set_textContent cat h;
         container = appendChild container h;
         (list, n) = createElement ''ul'' n;
         (list, n) = fold (render_item cat) items (list, n);
         container = appendChild container list;
         (nameInput, n) = createElement ''input'' n;
         nameInput = set_placeholder ''Name'' nameInput;
         (urlInput, n) = createElement ''input'' n;
         urlInput = set_placeholder ''URL'' urlInput;
         (addBtn, n) = createElement ''button'' n;
         addBtn = set_textContent ''Add'' addBtn;
         addBtn = set_onclick (AddItemClick cat (ident (fst nameInput)) (ident (fst urlInput))) addBtn;
         container = appendChild container nameInput;
         container = appendChild container urlInput;
         container = appendChild container addBtn;
         (delCatBtn, n) = createElement ''button'' n;
         delCatBtn = set_textContent ''Delete Category'' delCatBtn;
         delCatBtn = set_onclick (DeleteCategoryClick cat) delCatBtn;
         container = appendChild container delCatBtn
     in (container, n))"

text \<open>
  Lines 4 to 38 of \<^verbatim>\<open>load\<close>: the container is emptied, then filled category by category.
  The children that \<^verbatim>\<open>innerHTML = ''\<close> removes join the detached nodes.
\<close>

definition render :: "catalog \<Rightarrow> document \<Rightarrow> document" where
  "render data d =
     (let container = container d;
          removed = snd container;
          container = set_innerHTML [] container;
          (container, n) = fold render_category data (container, next_id d)
      in d\<lparr>container := container, next_id := n, detached := removed @ detached d\<rparr>)"

section \<open>The network\<close>

text \<open>
  A request as \<^verbatim>\<open>fetch\<close> is given it. The body holds the value handed to \<^verbatim>\<open>JSON.stringify\<close>:
  an object literal whose fields are strings, in the order the source writes them.
\<close>

datatype http_method = GET | POST

datatype json = JString string | JObject "(string \<times> json) list"

record request =
  meth :: http_method
  path :: string
  headers :: "(string \<times> string) list"
  body :: "json option"

text \<open>
  A response, as far as the script can read it: the status, and what \<^verbatim>\<open>res.json()\<close> yields
  (\<open>None\<close> when the body is not JSON, so that the promise rejects).
\<close>

record response =
  status :: nat
  parsed :: "catalog option"

datatype error = NetworkError | SyntaxError

text \<open>
  The other end of \<^verbatim>\<open>fetch\<close>: given a request and its own state \<open>'w\<close>, it answers with a
  response or with none (the promise rejects), and moves to a new state.
\<close>

type_synonym 'w network = "request \<Rightarrow> 'w \<Rightarrow> response option \<times> 'w"

text \<open>What a run acts on: the page, the state of the other end, and the requests issued so far, oldest first.\<close>

record 'w world =
  doc :: document
  server :: 'w
  sent :: "request list"

definition fetch :: "'w network \<Rightarrow> request \<Rightarrow> 'w world \<Rightarrow> (error + response) \<times> 'w world" where
  "fetch net req st =
     (case net req (server st) of
        (None, w) \<Rightarrow> (Inl NetworkError, st\<lparr>server := w, sent := sent st @ [req]\<rparr>)
      | (Some res, w) \<Rightarrow> (Inr res, st\<lparr>server := w, sent := sent st @ [req]\<rparr>))"

text \<open>
  The two shapes of request the script builds: \<^verbatim>\<open>fetch(p)\<close> with no options, and
  \<^verbatim>\<open>fetch(p, {method:'POST', headers:{'Content-Type':'application/json'}, body:JSON.stringify(b)})\<close>.
\<close>

definition get :: "string \<Rightarrow> request" where
  "get p = \<lparr>meth = GET, path = p, headers = [], body = None\<rparr>"

definition post :: "string \<Rightarrow> json \<Rightarrow> request" where
  "post p b = \<lparr>meth = POST, path = p,
     headers = [(''Content-Type'', ''application/json'')], body = Some b\<rparr>"

section \<open>The controller\<close>

text \<open>
  Each \<^verbatim>\<open>async\<close> function runs to its end with no other event in between; its result is
  how its promise settles, \<open>Inl\<close> for a rejection. \<^verbatim>\<open>load\<close> awaits the fetch and the parse
  before it touches the page.
\<close>

definition load :: "'w network \<Rightarrow> 'w world \<Rightarrow> (error + unit) \<times> 'w world" where
  "load net st =
     (case fetch net (get ''/api/data'') st of
        (Inl e, st) \<Rightarrow> (Inl e, st)
      | (Inr res, st) \<Rightarrow>
          (case parsed res of
             None \<Rightarrow> (Inl SyntaxError, st)
           | Some data \<Rightarrow> (Inr (), st\<lparr>doc := render data (doc st)\<rparr>)))"

text \<open>
  The four operations await their own fetch and never read its response. They call
  \<^verbatim>\<open>load()\<close> without awaiting it, so a rejection of \<^verbatim>\<open>load\<close> does not reject them.
\<close>

definition addCategory :: "'w network \<Rightarrow> 'w world \<Rightarrow> (error + unit) \<times> 'w world" where
  "addCategory net st =
     (let nm = new_cat (doc st) in
      case fetch net (post ''/api/add_category'' (JObject [(''name'', JString nm)])) st of
        (Inl e, st) \<Rightarrow> (Inl e, st)
      | (Inr res, st) \<Rightarrow>
          (let st = st\<lparr>doc := (doc st)\<lparr>new_cat := []\<rparr>\<rparr>
           in (Inr (), snd (load net st))))"

definition deleteCategory :: "'w network \<Rightarrow> string \<Rightarrow> 'w world \<Rightarrow> (error + unit) \<times> 'w world" where
  "deleteCategory net nm st =
     (case fetch net (post ''/api/delete_category'' (JObject [(''name'', JString nm)])) st of
        (Inl e, st) \<Rightarrow> (Inl e, st)
      | (Inr res, st) \<Rightarrow> (Inr (), snd (load net st)))"

definition addItem ::
  "'w network \<Rightarrow> string \<Rightarrow> string \<Rightarrow> string \<Rightarrow> 'w world \<Rightarrow> (error + unit) \<times> 'w world" where
  "addItem net category nm u st =
     (case fetch net (post ''/api/add_item''
           (JObject [(''category'', JString category), (''name'', JString nm), (''url'', JString u)])) st of
        (Inl e, st) \<Rightarrow> (Inl e, st)
      | (Inr res, st) \<Rightarrow> (Inr (), snd (load net st)))"

definition deleteItem ::
  "'w network \<Rightarrow> string \<Rightarrow> string \<Rightarrow> 'w world \<Rightarrow> (error + unit) \<times> 'w world" where
  "deleteItem net category nm st =
     (case fetch net (post ''/api/delete_item''
           (JObject [(''category'', JString category), (''name'', JString nm)])) st of
        (Inl e, st) \<Rightarrow> (Inl e, st)
      | (Inr res, st) \<Rightarrow> (Inr (), snd (load net st)))"

section \<open>Events\<close>







section \<open>The rendered view in closed form\<close>

text \<open>
  What \<open>render\<close> builds for a catalog, written without the loops: per category the heading,
  the list of entries, the two inputs and the two buttons. An entry holds the markup exactly
  as line 14 splices it, and the item's delete button. The argument \<open>i\<close> is the identity of
  the first element; the others follow in creation order. These definitions serve to
  calculate with the result of \<open>render\<close>; that they are its result is proved below.
\<close>

definition heading :: "string \<Rightarrow> nat \<Rightarrow> node" where
  "heading cat i =
     Element \<lparr>ident = i, tagName = ''h2'', placeholder = [], val = [], onclick = None\<rparr>
       (if cat = [] then [] else [Text cat])"

definition button :: "string \<Rightarrow> handler \<Rightarrow> nat \<Rightarrow> node" where
  "button label h i =
     Element \<lparr>ident = i, tagName = ''button'', placeholder = [], val = [], onclick = Some h\<rparr>
       [Text label]"

definition text_field :: "string \<Rightarrow> nat \<Rightarrow> node" where
  "text_field hint i =
     Element \<lparr>ident = i, tagName = ''input'', placeholder = hint, val = [], onclick = None\<rparr> []"

definition entry :: "string \<Rightarrow> item \<Rightarrow> nat \<Rightarrow> node" where
  \<open>entry cat it i =
     Element \<lparr>ident = i, tagName = ''li'', placeholder = [], val = [], onclick = None\<rparr>
       [Html (''<a href="'' @ url it @ ''" target="_blank">'' @ name it @ ''</a>''),
        button ''Delete'' (DeleteItemClick cat (name it)) (i + 1)]\<close>

fun entries :: "string \<Rightarrow> item list \<Rightarrow> nat \<Rightarrow> node list" where
  "entries cat [] i = []"
| "entries cat (it # its) i = entry cat it i # entries cat its (i + 2)"

definition section_of :: "string \<Rightarrow> item list \<Rightarrow> nat \<Rightarrow> node list" where
  "section_of cat its i =
     (let j = i + 2 + 2 * length its in
      [heading cat i,
       Element \<lparr>ident = i + 1, tagName = ''ul'', placeholder = [], val = [], onclick = None\<rparr>
         (entries cat its (i + 2)),
       text_field ''Name'' j,
       text_field ''URL'' (j + 1),
       button ''Add'' (AddItemClick cat j (j + 1)) (j + 2),
       button ''Delete Category'' (DeleteCategoryClick cat) (j + 3)])"

fun sections :: "catalog \<Rightarrow> nat \<Rightarrow> node list" where
  "sections [] i = []"
| "sections ((cat, its) # rest) i = section_of cat its i @ sections rest (i + 6 + 2 * length its)"

fun ids_used :: "catalog \<Rightarrow> nat" where
  "ids_used [] = 0"
| "ids_used ((cat, its) # rest) = 6 + 2 * length its + ids_used rest"

section \<open>Identities and elements of a view\<close>

text \<open>The identities of the elements of a subtree, and the elements themselves, in document order.\<close>

fun idents :: "node \<Rightarrow> nat list" where
  "idents (Text s) = []"
| "idents (Html m) = []"
| "idents (Element p cs) = ident p # concat (map idents cs)"

definition idents_list :: "node list \<Rightarrow> nat list" where
  "idents_list cs = concat (map idents cs)"



text \<open>Every element below the container was created before the counter reached its present value.\<close>

definition wf_doc :: "document \<Rightarrow> bool" where
  "wf_doc d = (\<forall>k \<in> set (idents_list (snd (container d))). k < next_id d)"

section \<open>The API\<close>

text \<open>
  Modelled from the spec: the server's deletion of an item, which is not among the sources.
  Section 3 makes the name the key of an item within its category, and section 8 wants a
  deletion to touch no other category and a repeated deletion to change nothing: the items
  of that name leave that category, and every other category stays as it is.
\<close>

definition delete_item :: "string \<Rightarrow> string \<Rightarrow> catalog \<Rightarrow> catalog" where
  "delete_item c n srv =
     map (\<lambda>(k, its). if k = c then (k, filter (\<lambda>it. name it \<noteq> n) its) else (k, its)) srv"

text \<open>
  Modelled from the spec: the server behind \<^verbatim>\<open>/api/data\<close> and \<^verbatim>\<open>/api/delete_item\<close>, which
  is not among the sources. Section 6 gives the contract: fetching the catalog answers with
  the mapping from category name to its ordered items; deleting an item takes
  \<^verbatim>\<open>{"category": string, "name": string}\<close>. The response to a deletion is
  implementation-defined; here it is status 200 with no JSON payload. Every other request is
  left to \<open>other\<close>.
\<close>

definition api :: "catalog network \<Rightarrow> catalog network" where
  "api other req srv =
     (if meth req = GET \<and> path req = ''/api/data'' then
        (Some \<lparr>status = 200, parsed = Some srv\<rparr>, srv)
      else if meth req = POST \<and> path req = ''/api/delete_item'' then
        (case body req of
           Some (JObject fs) \<Rightarrow>
             (case (map_of fs ''category'', map_of fs ''name'') of
                (Some (JString c), Some (JString n)) \<Rightarrow>
                  (Some \<lparr>status = 200, parsed = None\<rparr>, delete_item c n srv)
              | _ \<Rightarrow> other req srv)
         | _ \<Rightarrow> other req srv)
      else other req srv)"

section \<open>Requests issued by an operation\<close>

text \<open>
  The requests a run has added to the log between the worlds \<open>st\<close> and \<open>st'\<close>, and the POSTs
  among them.
\<close>

definition issued :: "'w world \<Rightarrow> 'w world \<Rightarrow> request list" where
  "issued st st' = drop (length (sent st)) (sent st')"

definition posts :: "'w world \<Rightarrow> 'w world \<Rightarrow> request list" where
  "posts st st' = filter (\<lambda>r. meth r = POST) (issued st st')"

section \<open>A page and two networks to evaluate on\<close>

text \<open>
  A page whose container is empty, a network on which every fetch rejects, and a network that
  answers every request with the same response.
\<close>

definition blank_page :: document where
  "blank_page =
     \<lparr>container = (\<lparr>ident = 0, tagName = ''div'', placeholder = [], val = [], onclick = None\<rparr>, []),
      new_cat = [], next_id = 1, detached = []\<rparr>"

definition offline :: "'w network" where
  "offline req w = (None, w)"

definition answering :: "response \<Rightarrow> 'w network" where
  "answering res req w = (Some res, w)"

section \<open>The object a JSON body denotes\<close>

text \<open>
  A response body that is a JSON object lists its members in some order. \<^verbatim>\<open>JSON.parse\<close> creates
  one property per member name, in the order of the text; a repeated name keeps the place of
  its first member and takes the value of its last.
\<close>

fun define_property :: "string \<times> 'a \<Rightarrow> (string \<times> 'a) list \<Rightarrow> (string \<times> 'a) list" where
  "define_property (k, v) [] = [(k, v)]"
| "define_property (k, v) ((k', v') # ps) =
     (if k' = k then (k, v) # ps else (k', v') # define_property (k, v) ps)"

definition own_properties :: "(string \<times> 'a) list \<Rightarrow> (string \<times> 'a) list" where
  "own_properties ms = fold define_property ms []"

text \<open>
  An array index is the canonical decimal numeral of an integer from 0 to \<open>2^32 - 2\<close>: digits
  only, no leading zero except for \<^verbatim>\<open>0\<close> itself.
\<close>

definition digit :: "char \<Rightarrow> nat option" where
  "digit c = map_of [(CHR ''0'', 0), (CHR ''1'', 1), (CHR ''2'', 2), (CHR ''3'', 3), (CHR ''4'', 4),
                     (CHR ''5'', 5), (CHR ''6'', 6), (CHR ''7'', 7), (CHR ''8'', 8), (CHR ''9'', 9)] c"

fun decimal :: "string \<Rightarrow> nat \<Rightarrow> nat option" where
  "decimal [] n = Some n"
| "decimal (c # cs) n = (case digit c of None \<Rightarrow> None | Some d \<Rightarrow> decimal cs (10 * n + d))"

fun array_index :: "string \<Rightarrow> nat option" where
  "array_index [] = None"
| "array_index (c # cs) =
     (if c = CHR ''0'' \<and> cs \<noteq> [] then None
      else case decimal (c # cs) 0 of
             None \<Rightarrow> None
           | Some n \<Rightarrow> if n < 4294967295 then Some n else None)"

text \<open>
  \<^verbatim>\<open>Object.entries\<close> enumerates the keys that are array indices first, in ascending numeric
  order, and the other keys after them, in the order of their creation.
\<close>

definition Object_entries :: "(string \<times> 'a) list \<Rightarrow> (string \<times> 'a) list" where
  "Object_entries obj =
     sort_key (\<lambda>(k, v). case array_index k of Some n \<Rightarrow> n | None \<Rightarrow> 0)
       (filter (\<lambda>(k, v). array_index k \<noteq> None) obj)
     @ filter (\<lambda>(k, v). array_index k = None) obj"

text \<open>
  The catalog, as the list \<^verbatim>\<open>Object.entries\<close> enumerates, of a body with the members \<open>ms\<close> in
  that order.
\<close>

definition json_object :: "(string \<times> 'a) list \<Rightarrow> (string \<times> 'a) list" where
  "json_object ms = Object_entries (own_properties ms)"

section \<open>What the browser shows\<close>

text \<open>
  The script hands markup to the HTML parser through \<^verbatim>\<open>innerHTML\<close>. A string is plain for an
  attribute value in double quotes when it holds none of the characters that end or alter
  such a value: the double quote, the ampersand, carriage return and NUL. It is plain for
  text when it holds none of the characters that end or alter text: the less-than sign, the
  ampersand, carriage return and NUL.
\<close>

definition plain_attr :: "string \<Rightarrow> bool" where
  "plain_attr s = list_all (\<lambda>c. c \<notin> set [CHR 0x22, CHR ''&'', CHR 0x0D, CHR 0x00]) s"

definition plain_text :: "string \<Rightarrow> bool" where
  "plain_text s = list_all (\<lambda>c. c \<notin> set [CHR ''<'', CHR ''&'', CHR 0x0D, CHR 0x00]) s"

text \<open>A link as the page shows it: its label, where it leads, and the context it opens in.\<close>

record link =
  label :: string
  href :: string
  target :: string

text \<open>
  The parser's reading of markup of the one shape \<^verbatim>\<open><a href="U" target="_blank">L</a>\<close> with
  \<open>U\<close> plain for an attribute value and \<open>L\<close> plain for text: an anchor with href \<open>U\<close>, target
  \<^verbatim>\<open>_blank\<close> and the text \<open>L\<close>. Markup of any other shape is left unread.
\<close>

fun strip_prefix :: "string \<Rightarrow> string \<Rightarrow> string option" where
  "strip_prefix [] s = Some s"
| "strip_prefix (p # ps) [] = None"
| "strip_prefix (p # ps) (c # cs) = (if p = c then strip_prefix ps cs else None)"

definition read_link :: "string \<Rightarrow> link option" where
  \<open>read_link m =
     (case strip_prefix ''<a href="'' m of
        None \<Rightarrow> None
      | Some r \<Rightarrow>
          (case strip_prefix ''" target="_blank">'' (dropWhile (\<lambda>c. c \<noteq> CHR 0x22) r) of
             None \<Rightarrow> None
           | Some t \<Rightarrow>
               (let u = takeWhile (\<lambda>c. c \<noteq> CHR 0x22) r;
                    l = takeWhile (\<lambda>c. c \<noteq> CHR ''<'') t
                in if dropWhile (\<lambda>c. c \<noteq> CHR ''<'') t = ''</a>'' \<and> plain_attr u \<and> plain_text l
                   then Some \<lparr>label = l, href = u, target = ''_blank''\<rparr>
                   else None)))\<close>

text \<open>
  A node as the page shows it: text as it is, markup as the link it reads as or else as
  unread markup (what the parser makes of that is not modelled), an element with its
  children.
\<close>

datatype shown_node =
    ShownText string
  | ShownLink link
  | ShownMarkup string
  | ShownElement props "shown_node list"

fun shown :: "node \<Rightarrow> shown_node" where
  "shown (Text s) = ShownText s"
| "shown (Html m) = (case read_link m of Some l \<Rightarrow> ShownLink l | None \<Rightarrow> ShownMarkup m)"
| "shown (Element p cs) = ShownElement p (map shown cs)"

text \<open>What the page shows for the markup that line 14 splices for an item.\<close>

definition spliced :: "item \<Rightarrow> shown_node" where
  \<open>spliced it = shown (Html (''<a href="'' @ url it @ ''" target="_blank">'' @ name it @ ''</a>''))\<close>

section \<open>The view, as described\<close>

text \<open>
  The view the specification describes for a catalog, in its words: per category a heading
  with the category's name; a list with one entry per item, in item order, each entry a
  link labelled with the item's name, targeting the item's url and opening in a new context,
  and a delete control; a name field, a URL field and a submit control; a delete-category
  control. For an item whose name or url is not plain the description leaves open what
  stands in the link's place: that is \<open>other\<close>. The heading, the fields and the controls
  are elements that hold text only, which the page shows as it is. The argument \<open>i\<close> is the
  identity of the first element.
\<close>

definition described_entry :: "(item \<Rightarrow> shown_node) \<Rightarrow> string \<Rightarrow> item \<Rightarrow> nat \<Rightarrow> shown_node" where
  "described_entry other cat it i =
     ShownElement \<lparr>ident = i, tagName = ''li'', placeholder = [], val = [], onclick = None\<rparr>
       [if plain_attr (url it) \<and> plain_text (name it)
        then ShownLink \<lparr>label = name it, href = url it, target = ''_blank''\<rparr>
        else other it,
        shown (button ''Delete'' (DeleteItemClick cat (name it)) (i + 1))]"

fun described_entries :: "(item \<Rightarrow> shown_node) \<Rightarrow> string \<Rightarrow> item list \<Rightarrow> nat \<Rightarrow> shown_node list" where
  "described_entries other cat [] i = []"
| "described_entries other cat (it # its) i =
     described_entry other cat it i # described_entries other cat its (i + 2)"

definition described_section :: "(item \<Rightarrow> shown_node) \<Rightarrow> string \<Rightarrow> item list \<Rightarrow> nat \<Rightarrow> shown_node list" where
  "described_section other cat its i =
     (let j = i + 2 + 2 * length its in
      [shown (heading cat i),
       ShownElement \<lparr>ident = i + 1, tagName = ''ul'', placeholder = [], val = [], onclick = None\<rparr>
         (described_entries other cat its (i + 2)),
       shown (text_field ''Name'' j),
       shown (text_field ''URL'' (j + 1)),
       shown (button ''Add'' (AddItemClick cat j (j + 1)) (j + 2)),
       shown (button ''Delete Category'' (DeleteCategoryClick cat) (j + 3))])"

fun described :: "(item \<Rightarrow> shown_node) \<Rightarrow> catalog \<Rightarrow> nat \<Rightarrow> shown_node list" where
  "described other [] i = []"
| "described other ((cat, its) # rest) i =
     described_section other cat its i @ described other rest (i + 6 + 2 * length its)"

section \<open>Rendering builds the closed form\<close>

lemma fold_render_item:
  "fold (render_item cat) its ((p, cs), n) = ((p, cs @ entries cat its n), n + 2 * length its)"
  by (induction its arbitrary: cs n)
     (simp_all add: render_item_def createElement_def set_innerHTML_def set_textContent_def
        set_onclick_def appendChild_def entry_def button_def)

lemma render_category_section:
  "render_category (cat, its) ((p, cs), n) =
     ((p, cs @ section_of cat its n), n + 6 + 2 * length its)"
  by (simp add: render_category_def createElement_def set_textContent_def set_placeholder_def
        set_onclick_def appendChild_def fold_render_item section_of_def heading_def button_def
        text_field_def Let_def)

lemma fold_render_category:
  "fold render_category data ((p, cs), n) = ((p, cs @ sections data n), n + ids_used data)"
proof (induction data arbitrary: cs n)
  case Nil
  show ?case by simp
next
  case (Cons c data)
  obtain cat its where c: "c = (cat, its)" by (cases c)
  show ?case
    by (simp add: c render_category_section Cons.IH add.assoc add.commute add.left_commute)
qed

lemma render_sections:
  "render data d =
     d\<lparr>container := (fst (container d), sections data (next_id d)),
       next_id := next_id d + ids_used data,
       detached := snd (container d) @ detached d\<rparr>"
  by (cases "container d") (simp add: render_def set_innerHTML_def fold_render_category)

section \<open>What fetch and load return\<close>

lemma fetch_ok:
  "net req (server st) = (Some res, w) \<Longrightarrow>
     fetch net req st = (Inr res, st\<lparr>server := w, sent := sent st @ [req]\<rparr>)"
  by (simp add: fetch_def)

lemma fetch_rejected:
  "net req (server st) = (None, w) \<Longrightarrow>
     fetch net req st = (Inl NetworkError, st\<lparr>server := w, sent := sent st @ [req]\<rparr>)"
  by (simp add: fetch_def)

lemma load_ok:
  "net (get ''/api/data'') (server st) = (Some res, w) \<Longrightarrow> parsed res = Some data \<Longrightarrow>
     load net st =
       (Inr (), st\<lparr>server := w, sent := sent st @ [get ''/api/data''],
                    doc := render data (doc st)\<rparr>)"
  by (simp add: load_def fetch_ok)

lemma load_rejected:
  "net (get ''/api/data'') (server st) = (None, w) \<Longrightarrow>
     load net st = (Inl NetworkError, st\<lparr>server := w, sent := sent st @ [get ''/api/data'']\<rparr>)"
  by (simp add: load_def fetch_rejected)

lemma load_not_json:
  "net (get ''/api/data'') (server st) = (Some res, w) \<Longrightarrow> parsed res = None \<Longrightarrow>
     load net st = (Inl SyntaxError, st\<lparr>server := w, sent := sent st @ [get ''/api/data'']\<rparr>)"
  by (simp add: load_def fetch_ok)

text \<open>The three ways the fetch of \<^verbatim>\<open>/api/data\<close> and the parse of its response can go.\<close>

lemma load_cases:
  obtains (rejected) w where "net (get ''/api/data'') (server st) = (None, w)"
  | (not_json) res w where "net (get ''/api/data'') (server st) = (Some res, w)" "parsed res = None"
  | (ok) res w data where "net (get ''/api/data'') (server st) = (Some res, w)" "parsed res = Some data"
proof (cases "net (get ''/api/data'') (server st)")
  case (Pair r w)
  show ?thesis
  proof (cases r)
    case None
    with Pair rejected show ?thesis by simp
  next
    case (Some res)
    with Pair not_json ok show ?thesis by (cases "parsed res") auto
  qed
qed

lemma sent_load: "sent (snd (load net st)) = sent st @ [get ''/api/data'']"
  by (cases rule: load_cases [of net st]) (simp_all add: load_rejected load_not_json load_ok)

lemma new_cat_load: "new_cat (doc (snd (load net st))) = new_cat (doc st)"
  by (cases rule: load_cases [of net st])
     (simp_all add: load_rejected load_not_json load_ok render_sections)

section \<open>What the four operations return\<close>

lemma addCategory_ok:
  "net (post ''/api/add_category'' (JObject [(''name'', JString (new_cat (doc st)))])) (server st)
     = (Some res, w) \<Longrightarrow>
   addCategory net st =
     (Inr (), snd (load net (st\<lparr>server := w,
        sent := sent st @ [post ''/api/add_category'' (JObject [(''name'', JString (new_cat (doc st)))])],
        doc := (doc st)\<lparr>new_cat := []\<rparr>\<rparr>)))"
  by (simp add: addCategory_def fetch_ok)

lemma addCategory_rejected:
  "net (post ''/api/add_category'' (JObject [(''name'', JString (new_cat (doc st)))])) (server st)
     = (None, w) \<Longrightarrow>
   addCategory net st =
     (Inl NetworkError, st\<lparr>server := w,
        sent := sent st @ [post ''/api/add_category'' (JObject [(''name'', JString (new_cat (doc st)))])]\<rparr>)"
  by (simp add: addCategory_def fetch_rejected)

lemma deleteCategory_ok:
  "net (post ''/api/delete_category'' (JObject [(''name'', JString nm)])) (server st) = (Some res, w) \<Longrightarrow>
   deleteCategory net nm st =
     (Inr (), snd (load net (st\<lparr>server := w,
        sent := sent st @ [post ''/api/delete_category'' (JObject [(''name'', JString nm)])]\<rparr>)))"
  by (simp add: deleteCategory_def fetch_ok)

lemma deleteCategory_rejected:
  "net (post ''/api/delete_category'' (JObject [(''name'', JString nm)])) (server st) = (None, w) \<Longrightarrow>
   deleteCategory net nm st =
     (Inl NetworkError, st\<lparr>server := w,
        sent := sent st @ [post ''/api/delete_category'' (JObject [(''name'', JString nm)])]\<rparr>)"
  by (simp add: deleteCategory_def fetch_rejected)

lemma addItem_ok:
  "net (post ''/api/add_item''
      (JObject [(''category'', JString c), (''name'', JString nm), (''url'', JString u)])) (server st)
     = (Some res, w) \<Longrightarrow>
   addItem net c nm u st =
     (Inr (), snd (load net (st\<lparr>server := w,
        sent := sent st @ [post ''/api/add_item''
          (JObject [(''category'', JString c), (''name'', JString nm), (''url'', JString u)])]\<rparr>)))"
  by (simp add: addItem_def fetch_ok)

lemma addItem_rejected:
  "net (post ''/api/add_item''
      (JObject [(''category'', JString c), (''name'', JString nm), (''url'', JString u)])) (server st)
     = (None, w) \<Longrightarrow>
   addItem net c nm u st =
     (Inl NetworkError, st\<lparr>server := w,
        sent := sent st @ [post ''/api/add_item''
          (JObject [(''category'', JString c), (''name'', JString nm), (''url'', JString u)])]\<rparr>)"
  by (simp add: addItem_def fetch_rejected)

lemma deleteItem_ok:
  "net (post ''/api/delete_item'' (JObject [(''category'', JString c), (''name'', JString nm)])) (server st)
     = (Some res, w) \<Longrightarrow>
   deleteItem net c nm st =
     (Inr (), snd (load net (st\<lparr>server := w,
        sent := sent st @ [post ''/api/delete_item''
          (JObject [(''category'', JString c), (''name'', JString nm)])]\<rparr>)))"
  by (simp add: deleteItem_def fetch_ok)

lemma deleteItem_rejected:
  "net (post ''/api/delete_item'' (JObject [(''category'', JString c), (''name'', JString nm)])) (server st)
     = (None, w) \<Longrightarrow>
   deleteItem net c nm st =
     (Inl NetworkError, st\<lparr>server := w,
        sent := sent st @ [post ''/api/delete_item''
          (JObject [(''category'', JString c), (''name'', JString nm)])]\<rparr>)"
  by (simp add: deleteItem_def fetch_rejected)

lemma posts_addCategory:
  "posts st (snd (addCategory net st)) =
     [post ''/api/add_category'' (JObject [(''name'', JString (new_cat (doc st)))])]"
proof (cases "net (post ''/api/add_category'' (JObject [(''name'', JString (new_cat (doc st)))])) (server st)")
  case (Pair r w)
  then show ?thesis
    by (cases r)
       (simp_all add: posts_def issued_def addCategory_ok addCategory_rejected sent_load,
        simp_all add: post_def get_def)
qed

lemma posts_deleteCategory:
  "posts st (snd (deleteCategory net nm st)) =
     [post ''/api/delete_category'' (JObject [(''name'', JString nm)])]"
proof (cases "net (post ''/api/delete_category'' (JObject [(''name'', JString nm)])) (server st)")
  case (Pair r w)
  then show ?thesis
    by (cases r)
       (simp_all add: posts_def issued_def deleteCategory_ok deleteCategory_rejected sent_load,
        simp_all add: post_def get_def)
qed

lemma posts_addItem:
  "posts st (snd (addItem net c nm u st)) =
     [post ''/api/add_item''
        (JObject [(''category'', JString c), (''name'', JString nm), (''url'', JString u)])]"
proof (cases "net (post ''/api/add_item''
      (JObject [(''category'', JString c), (''name'', JString nm), (''url'', JString u)])) (server st)")
  case (Pair r w)
  then show ?thesis
    by (cases r)
       (simp_all add: posts_def issued_def addItem_ok addItem_rejected sent_load,
        simp_all add: post_def get_def)
qed

lemma posts_deleteItem:
  "posts st (snd (deleteItem net c nm st)) =
     [post ''/api/delete_item'' (JObject [(''category'', JString c), (''name'', JString nm)])]"
proof (cases "net (post ''/api/delete_item''
      (JObject [(''category'', JString c), (''name'', JString nm)])) (server st)")
  case (Pair r w)
  then show ?thesis
    by (cases r)
       (simp_all add: posts_def issued_def deleteItem_ok deleteItem_rejected sent_load,
        simp_all add: post_def get_def)
qed

lemma load_renders_sections_aux:
  "net (get ''/api/data'') (server st) = (Some res, w) \<Longrightarrow> parsed res = Some data \<Longrightarrow>
     snd (container (doc (snd (load net st)))) = sections data (next_id (doc st))"
  by (simp add: load_ok render_sections)

lemma posts_load: "posts st (snd (load net st)) = []"
  by (simp add: posts_def issued_def sent_load get_def)

lemma server_load: "server (snd (load net st)) = snd (net (get ''/api/data'') (server st))"
  by (cases rule: load_cases [of net st]) (simp_all add: load_rejected load_not_json load_ok)

section \<open>Identities in the rendered view\<close>

lemma idents_entries:
  "k \<in> set (idents_list (entries cat its i)) \<Longrightarrow> i \<le> k \<and> k < i + 2 * length its"
  by (induction its arbitrary: i) (fastforce simp: idents_list_def entry_def button_def)+

lemma idents_list_section_of:
  "idents_list (section_of cat its i) =
     i # (i + 1) # idents_list (entries cat its (i + 2)) @
     [i + 2 + 2 * length its, i + 2 + 2 * length its + 1, i + 2 + 2 * length its + 2,
      i + 2 + 2 * length its + 3]"
  by (simp add: idents_list_def section_of_def heading_def text_field_def button_def Let_def)

lemma idents_section_of:
  "k \<in> set (idents_list (section_of cat its i)) \<Longrightarrow> i \<le> k \<and> k < i + 6 + 2 * length its"
  using idents_entries [of k cat its "i + 2"]
  by (auto simp: idents_list_section_of)

lemma idents_list_append: "idents_list (xs @ ys) = idents_list xs @ idents_list ys"
  by (simp add: idents_list_def)

lemma idents_sections:
  "k \<in> set (idents_list (sections data i)) \<Longrightarrow> i \<le> k \<and> k < i + ids_used data"
proof (induction data i rule: sections.induct)
  case (1 i)
  then show ?case by (simp add: idents_list_def)
next
  case (2 cat its rest i)
  then show ?case
    using idents_section_of [of k cat its i]
    by (fastforce simp: idents_list_append)
qed

lemma wf_doc_render: "wf_doc (render data d)"
  using idents_sections [of _ data "next_id d"]
  by (auto simp: wf_doc_def render_sections)

section \<open>Following a reference into the rendered view\<close>




lemma sections_append:
  "sections (xs @ ys) i = sections xs i @ sections ys (i + ids_used xs)"
  by (induction xs i rule: sections.induct) (simp_all add: add.assoc add.commute add.left_commute)



















section \<open>The modelled API\<close>

lemma api_get: "api other (get ''/api/data'') srv = (Some \<lparr>status = 200, parsed = Some srv\<rparr>, srv)"
  by (simp add: api_def get_def)

lemma api_delete_item:
  "api other (post ''/api/delete_item'' (JObject [(''category'', JString c), (''name'', JString n)])) srv =
     (Some \<lparr>status = 200, parsed = None\<rparr>, delete_item c n srv)"
  by (simp add: api_def post_def)

lemma delete_item_append:
  "delete_item c n (xs @ ys) = delete_item c n xs @ delete_item c n ys"
  by (simp add: delete_item_def)

lemma delete_item_other:
  "c \<noteq> b \<Longrightarrow> delete_item c n ((b, its) # rest) = (b, its) # delete_item c n rest"
  by (simp add: delete_item_def)

lemma delete_item_twice: "delete_item c n (delete_item c n srv) = delete_item c n srv"
  by (induction srv) (auto simp: delete_item_def)

lemma deleteItem_api:
  "deleteItem (api other) c n st =
     (Inr (), st\<lparr>server := delete_item c n (server st),
        sent := sent st @ [post ''/api/delete_item''
                  (JObject [(''category'', JString c), (''name'', JString n)]), get ''/api/data''],
        doc := render (delete_item c n (server st)) (doc st)\<rparr>)"
proof -
  let ?st = "st\<lparr>server := delete_item c n (server st),
        sent := sent st @ [post ''/api/delete_item''
                  (JObject [(''category'', JString c), (''name'', JString n)])]\<rparr>"
  have "load (api other) ?st =
      (Inr (), ?st\<lparr>server := delete_item c n (server st),
         sent := sent ?st @ [get ''/api/data''], doc := render (delete_item c n (server st)) (doc ?st)\<rparr>)"
    by (rule load_ok [where res = "\<lparr>status = 200, parsed = Some (delete_item c n (server st))\<rparr>"])
       (simp_all add: api_get)
  then show ?thesis
    by (simp add: deleteItem_ok [of "api other" c n st, OF api_delete_item])
qed

section \<open>References held by closures\<close>








section \<open>The rendered view, as shown\<close>

lemma strip_prefix_append: "strip_prefix p (p @ s) = Some s"
  by (induction p) simp_all

lemma read_link_plain:
  assumes "plain_attr u" and "plain_text l"
  shows \<open>read_link (''<a href="'' @ u @ ''" target="_blank">'' @ l @ ''</a>'') =
           Some \<lparr>label = l, href = u, target = ''_blank''\<rparr>\<close>
proof -
  have q: "CHR 0x22 \<notin> set u"
    using assms(1) by (auto simp: plain_attr_def list_all_iff)
  have lt: "CHR ''<'' \<notin> set l"
    using assms(2) by (auto simp: plain_text_def list_all_iff)
  have head: \<open>strip_prefix ''<a href="'' (''<a href="'' @ u @ ''" target="_blank">'' @ l @ ''</a>'') =
      Some (u @ ''" target="_blank">'' @ l @ ''</a>'')\<close>
    by (rule strip_prefix_append)
  have tu: \<open>takeWhile (\<lambda>c. c \<noteq> CHR 0x22) (u @ ''" target="_blank">'' @ l @ ''</a>'') = u\<close>
    using q by (subst takeWhile_append2) auto
  have du: \<open>dropWhile (\<lambda>c. c \<noteq> CHR 0x22) (u @ ''" target="_blank">'' @ l @ ''</a>'') =
      ''" target="_blank">'' @ l @ ''</a>''\<close>
    using q by (subst dropWhile_append2) auto
  have mid: \<open>strip_prefix ''" target="_blank">'' (''" target="_blank">'' @ l @ ''</a>'') =
      Some (l @ ''</a>'')\<close>
    by (rule strip_prefix_append)
  have tl: "takeWhile (\<lambda>c. c \<noteq> CHR ''<'') (l @ ''</a>'') = l"
    using lt by (subst takeWhile_append2) auto
  have dl: "dropWhile (\<lambda>c. c \<noteq> CHR ''<'') (l @ ''</a>'') = ''</a>''"
    using lt by (subst dropWhile_append2) auto
  show ?thesis
    unfolding read_link_def head option.case du mid tu Let_def tl dl
    using assms by simp
qed

lemma spliced_plain:
  assumes "plain_attr (url it)" and "plain_text (name it)"
  shows "spliced it = ShownLink \<lparr>label = name it, href = url it, target = ''_blank''\<rparr>"
  unfolding spliced_def shown.simps read_link_plain [OF assms] by simp

lemma shown_entry: "shown (entry cat it i) = described_entry spliced cat it i"
proof -
  have "shown (entry cat it i) =
      ShownElement \<lparr>ident = i, tagName = ''li'', placeholder = [], val = [], onclick = None\<rparr>
        [spliced it, shown (button ''Delete'' (DeleteItemClick cat (name it)) (i + 1))]"
    by (simp only: entry_def shown.simps list.map spliced_def)
  then show ?thesis
    by (simp add: described_entry_def spliced_plain)
qed

lemma shown_entries: "map shown (entries cat its i) = described_entries spliced cat its i"
  by (induction its arbitrary: i) (simp_all add: shown_entry)

lemma shown_section_of: "map shown (section_of cat its i) = described_section spliced cat its i"
  using shown_entries [of cat its "i + 2"]
  by (simp add: section_of_def described_section_def Let_def)

lemma shown_sections: "map shown (sections data i) = described spliced data i"
  by (induction data i rule: sections.induct) (simp_all add: shown_section_of)

section \<open>Properties of the controller\<close>

text \<open>
  C1. The view is meant to show every category name and every item's name and url exactly
  as fetched, as literal text and attribute values. \<^verbatim>\<open>load\<close> does so for the category name,
  which it assigns to \<^verbatim>\<open>textContent\<close>; the item's name and url it splices, unescaped, into the
  markup it assigns to \<^verbatim>\<open>innerHTML\<close>. Evaluated on a catalog whose names contain markup and
  whose url contains a double quote: the heading holds the category name as text, while the
  entry holds markup in which the url has ended the \<^verbatim>\<open>href\<close> attribute early and started a
  \<^verbatim>\<open>title\<close> attribute, and the name has become a \<^verbatim>\<open>b\<close> element.
\<close>

theorem load_splices_item_markup:
  \<open>snd (container (doc (snd (load (\<lambda>req w. (Some \<lparr>status = 200, parsed = Some w\<rparr>, w))
      \<lparr>doc = \<lparr>container = (\<lparr>ident = 0, tagName = ''div'', placeholder = [], val = [],
                               onclick = None\<rparr>, []),
               new_cat = [], next_id = 1, detached = []\<rparr>,
        server = [(''<i>A</i>'', [\<lparr>name = ''<b>x</b>'', url = ''u" title="t''\<rparr>])],
        sent = []\<rparr>)))) =
   [Element \<lparr>ident = 1, tagName = ''h2'', placeholder = [], val = [], onclick = None\<rparr>
      [Text ''<i>A</i>''],
    Element \<lparr>ident = 2, tagName = ''ul'', placeholder = [], val = [], onclick = None\<rparr>
      [Element \<lparr>ident = 3, tagName = ''li'', placeholder = [], val = [], onclick = None\<rparr>
         [Html ''<a href="u" title="t" target="_blank"><b>x</b></a>'',
          Element \<lparr>ident = 4, tagName = ''button'', placeholder = [], val = [],
                   onclick = Some (DeleteItemClick ''<i>A</i>'' ''<b>x</b>'')\<rparr>
            [Text ''Delete'']]],
    Element \<lparr>ident = 5, tagName = ''input'', placeholder = ''Name'', val = [], onclick = None\<rparr> [],
    Element \<lparr>ident = 6, tagName = ''input'', placeholder = ''URL'', val = [], onclick = None\<rparr> [],
    Element \<lparr>ident = 7, tagName = ''button'', placeholder = [], val = [],
             onclick = Some (AddItemClick ''<i>A</i>'' 5 6)\<rparr>
      [Text ''Add''],
    Element \<lparr>ident = 8, tagName = ''button'', placeholder = [], val = [],
             onclick = Some (DeleteCategoryClick ''<i>A</i>'')\<rparr>
      [Text ''Delete Category'']]\<close>
  by (simp add: load_def fetch_def get_def render_def render_category_def render_item_def
        createElement_def set_innerHTML_def set_textContent_def set_placeholder_def set_onclick_def
        appendChild_def)

text \<open>
  C2. For every fetched catalog, \<^verbatim>\<open>load\<close> renders the categories in the order in which
  \<^verbatim>\<open>Object.entries\<close> enumerates them: for a response body with the members \<open>ms\<close> that is
  \<open>json_object ms\<close>, the keys that are array indices first, ascending, then the other keys in
  the order of the response. For each category the page shows, in order: the heading with
  the category's name; the list with one entry per item, in item order, each entry with the
  item's delete control and, for an item whose name and url are plain, before it a link
  labelled with the name, targeting the url and opening in a new context; the name field,
  the URL field and the submit control; the delete-category control. What stands in the
  link's place for an item whose name or url is not plain is left open.
\<close>

theorem load_shows_described:
  assumes "net (get ''/api/data'') (server st) = (Some res, w)"
    and "parsed res = Some (json_object ms)"
  shows "fst (load net st) = Inr ()
       \<and> (\<exists>other. map shown (snd (container (doc (snd (load net st))))) =
             described other (json_object ms) (next_id (doc st)))"
proof -
  have "snd (container (doc (snd (load net st)))) = sections (json_object ms) (next_id (doc st))"
    using assms by (rule load_renders_sections_aux)
  then have "map shown (snd (container (doc (snd (load net st))))) =
      described spliced (json_object ms) (next_id (doc st))"
    by (simp only: shown_sections)
  moreover have "fst (load net st) = Inr ()"
    using load_ok [of net st, OF assms] by simp
  ultimately show ?thesis
    by blast
qed

text \<open>
  A body with the members \<^verbatim>\<open>B\<close> and \<^verbatim>\<open>2\<close>, in that order, the second with one item: the page
  shows \<^verbatim>\<open>2\<close> first, with a link labelled \<^verbatim>\<open>i1\<close> that leads to \<^verbatim>\<open>u1\<close> in a new context.
\<close>

theorem load_shows_described_witness:
  "map shown (snd (container (doc (snd (load
      (answering \<lparr>status = 200,
         parsed = Some (json_object [(''B'', []), (''2'', [\<lparr>name = ''i1'', url = ''u1''\<rparr>])])\<rparr>)
      \<lparr>doc = blank_page, server = (), sent = []\<rparr>))))) =
   [shown (heading ''2'' 1),
    ShownElement \<lparr>ident = 2, tagName = ''ul'', placeholder = [], val = [], onclick = None\<rparr>
      [ShownElement \<lparr>ident = 3, tagName = ''li'', placeholder = [], val = [], onclick = None\<rparr>
         [ShownLink \<lparr>label = ''i1'', href = ''u1'', target = ''_blank''\<rparr>,
          shown (button ''Delete'' (DeleteItemClick ''2'' ''i1'') 4)]],
    shown (text_field ''Name'' 5), shown (text_field ''URL'' 6),
    shown (button ''Add'' (AddItemClick ''2'' 5 6) 7),
    shown (button ''Delete Category'' (DeleteCategoryClick ''2'') 8),
    shown (heading ''B'' 9),
    ShownElement \<lparr>ident = 10, tagName = ''ul'', placeholder = [], val = [], onclick = None\<rparr> [],
    shown (text_field ''Name'' 11), shown (text_field ''URL'' 12),
    shown (button ''Add'' (AddItemClick ''B'' 11 12) 13),
    shown (button ''Delete Category'' (DeleteCategoryClick ''B'') 14)]"
proof -
  let ?ms = "[(''B'', []), (''2'', [\<lparr>name = ''i1'', url = ''u1''\<rparr>])]"
  let ?res = "\<lparr>status = 200, parsed = Some (json_object ?ms)\<rparr>"
  let ?st = "\<lparr>doc = blank_page, server = (), sent = []\<rparr>"
  have order: "json_object ?ms = [(''2'', [\<lparr>name = ''i1'', url = ''u1''\<rparr>]), (''B'', [])]"
    by (simp add: json_object_def Object_entries_def own_properties_def digit_def)
  have "\<exists>other. map shown (snd (container (doc (snd (load (answering ?res) ?st))))) =
      described other (json_object ?ms) (next_id (doc ?st))"
    using load_shows_described [of "answering ?res" ?st ?res "()" ?ms]
    by (simp add: answering_def)
  then obtain other where v: "map shown (snd (container (doc (snd (load (answering ?res) ?st))))) =
      described other (json_object ?ms) (next_id (doc ?st))" ..
  have n: "next_id (doc ?st) = 1"
    by (simp add: blank_page_def)
  have d: "described other [(''2'', [\<lparr>name = ''i1'', url = ''u1''\<rparr>]), (''B'', [])] 1 =
   [shown (heading ''2'' 1),
    ShownElement \<lparr>ident = 2, tagName = ''ul'', placeholder = [], val = [], onclick = None\<rparr>
      [ShownElement \<lparr>ident = 3, tagName = ''li'', placeholder = [], val = [], onclick = None\<rparr>
         [ShownLink \<lparr>label = ''i1'', href = ''u1'', target = ''_blank''\<rparr>,
          shown (button ''Delete'' (DeleteItemClick ''2'' ''i1'') 4)]],
    shown (text_field ''Name'' 5), shown (text_field ''URL'' 6),
    shown (button ''Add'' (AddItemClick ''2'' 5 6) 7),
    shown (button ''Delete Category'' (DeleteCategoryClick ''2'') 8),
    shown (heading ''B'' 9),
    ShownElement \<lparr>ident = 10, tagName = ''ul'', placeholder = [], val = [], onclick = None\<rparr> [],
    shown (text_field ''Name'' 11), shown (text_field ''URL'' 12),
    shown (button ''Add'' (AddItemClick ''B'' 11 12) 13),
    shown (button ''Delete Category'' (DeleteCategoryClick ''B'') 14)]"
    by (simp add: described_section_def described_entry_def plain_attr_def plain_text_def
          button_def text_field_def heading_def)
  show ?thesis
    using v unfolding order n d .
qed

text \<open>
  The categories are not always rendered in the order returned: a body whose members come in
  the order \<^verbatim>\<open>B\<close>, \<^verbatim>\<open>10\<close>, \<^verbatim>\<open>2\<close> is rendered in the order \<^verbatim>\<open>2\<close>, \<^verbatim>\<open>10\<close>, \<^verbatim>\<open>B\<close>, which is not the
  view described for \<^verbatim>\<open>B\<close>, \<^verbatim>\<open>10\<close>, \<^verbatim>\<open>2\<close>, whatever stands in the place of links.
\<close>

theorem load_reorders_index_keys:
  "snd (container (doc (snd (load
      (answering \<lparr>status = 200, parsed = Some (json_object [(''B'', []), (''10'', []), (''2'', [])])\<rparr>)
      \<lparr>doc = blank_page, server = (), sent = []\<rparr>)))) =
     sections [(''2'', []), (''10'', []), (''B'', [])] 1
   \<and> \<not> (\<exists>other. map shown (snd (container (doc (snd (load
      (answering \<lparr>status = 200, parsed = Some (json_object [(''B'', []), (''10'', []), (''2'', [])])\<rparr>)
      \<lparr>doc = blank_page, server = (), sent = []\<rparr>))))) =
     described other [(''B'', []), (''10'', []), (''2'', [])] 1)"
proof -
  have order: "json_object [(''B'', [] :: item list), (''10'', []), (''2'', [])] =
      [(''2'', []), (''10'', []), (''B'', [])]"
    by (simp add: json_object_def Object_entries_def own_properties_def digit_def)
  have view: "snd (container (doc (snd (load
      (answering \<lparr>status = 200, parsed = Some (json_object [(''B'', []), (''10'', []), (''2'', [])])\<rparr>)
      \<lparr>doc = blank_page, server = (), sent = []\<rparr>)))) =
     sections [(''2'', []), (''10'', []), (''B'', [])] 1"
    unfolding order
    by (simp add: load_def fetch_def answering_def render_sections blank_page_def)
  have "map shown (sections [(''2'', []), (''10'', []), (''B'', [])] 1) \<noteq>
        described other [(''B'', []), (''10'', []), (''2'', [])] 1" for other
    by (simp add: section_of_def described_section_def heading_def)
  with view show ?thesis
    by (simp only: not_ex) simp
qed

text \<open>
  C3. Every mutation operation issues exactly one POST, to its own endpoint, with the header
  \<^verbatim>\<open>Content-Type: application/json\<close> and the body the API expects: \<^verbatim>\<open>{name}\<close> for
  \<^verbatim>\<open>addCategory\<close> and \<^verbatim>\<open>deleteCategory\<close>, \<^verbatim>\<open>{category, name, url}\<close> for \<^verbatim>\<open>addItem\<close>,
  \<^verbatim>\<open>{category, name}\<close> for \<^verbatim>\<open>deleteItem\<close>. Once the fetch of that POST has resolved, with
  whatever response, the operation goes on to \<^verbatim>\<open>load()\<close> from the world the POST left: the
  response appears nowhere in what follows, so neither its status nor its body is read.
  When the fetch rejects, the operation rejects with it and \<^verbatim>\<open>load()\<close> is not called.
\<close>

theorem mutations_post_once_then_load:
  "post p b = \<lparr>meth = POST, path = p, headers = [(''Content-Type'', ''application/json'')],
                body = Some b\<rparr>
   \<and> posts st (snd (addCategory net st)) =
       [post ''/api/add_category'' (JObject [(''name'', JString (new_cat (doc st)))])]
   \<and> posts st (snd (deleteCategory net cn st)) =
       [post ''/api/delete_category'' (JObject [(''name'', JString cn)])]
   \<and> posts st (snd (addItem net c nm u st)) =
       [post ''/api/add_item''
          (JObject [(''category'', JString c), (''name'', JString nm), (''url'', JString u)])]
   \<and> posts st (snd (deleteItem net c nm st)) =
       [post ''/api/delete_item'' (JObject [(''category'', JString c), (''name'', JString nm)])]
   \<and> (\<forall>res w. net (post ''/api/add_category'' (JObject [(''name'', JString (new_cat (doc st)))]))
                  (server st) = (Some res, w) \<longrightarrow>
        addCategory net st =
          (Inr (), snd (load net (st\<lparr>server := w,
             sent := sent st @
               [post ''/api/add_category'' (JObject [(''name'', JString (new_cat (doc st)))])],
             doc := (doc st)\<lparr>new_cat := []\<rparr>\<rparr>))))
   \<and> (\<forall>res w. net (post ''/api/delete_category'' (JObject [(''name'', JString cn)]))
                  (server st) = (Some res, w) \<longrightarrow>
        deleteCategory net cn st =
          (Inr (), snd (load net (st\<lparr>server := w,
             sent := sent st @
               [post ''/api/delete_category'' (JObject [(''name'', JString cn)])]\<rparr>))))
   \<and> (\<forall>res w. net (post ''/api/add_item''
                  (JObject [(''category'', JString c), (''name'', JString nm), (''url'', JString u)]))
                  (server st) = (Some res, w) \<longrightarrow>
        addItem net c nm u st =
          (Inr (), snd (load net (st\<lparr>server := w,
             sent := sent st @
               [post ''/api/add_item''
                  (JObject [(''category'', JString c), (''name'', JString nm),
                            (''url'', JString u)])]\<rparr>))))
   \<and> (\<forall>res w. net (post ''/api/delete_item''
                  (JObject [(''category'', JString c), (''name'', JString nm)]))
                  (server st) = (Some res, w) \<longrightarrow>
        deleteItem net c nm st =
          (Inr (), snd (load net (st\<lparr>server := w,
             sent := sent st @
               [post ''/api/delete_item''
                  (JObject [(''category'', JString c), (''name'', JString nm)])]\<rparr>))))
   \<and> (\<forall>w. net (post ''/api/add_category'' (JObject [(''name'', JString (new_cat (doc st)))]))
                  (server st) = (None, w) \<longrightarrow>
        addCategory net st =
          (Inl NetworkError, st\<lparr>server := w,
             sent := sent st @
               [post ''/api/add_category'' (JObject [(''name'', JString (new_cat (doc st)))])]\<rparr>))
   \<and> (\<forall>w. net (post ''/api/delete_category'' (JObject [(''name'', JString cn)]))
                  (server st) = (None, w) \<longrightarrow>
        deleteCategory net cn st =
          (Inl NetworkError, st\<lparr>server := w,
             sent := sent st @
               [post ''/api/delete_category'' (JObject [(''name'', JString cn)])]\<rparr>))
   \<and> (\<forall>w. net (post ''/api/add_item''
                  (JObject [(''category'', JString c), (''name'', JString nm), (''url'', JString u)]))
                  (server st) = (None, w) \<longrightarrow>
        addItem net c nm u st =
          (Inl NetworkError, st\<lparr>server := w,
             sent := sent st @
               [post ''/api/add_item''
                  (JObject [(''category'', JString c), (''name'', JString nm),
                            (''url'', JString u)])]\<rparr>))
   \<and> (\<forall>w. net (post ''/api/delete_item''
                  (JObject [(''category'', JString c), (''name'', JString nm)]))
                  (server st) = (None, w) \<longrightarrow>
        deleteItem net c nm st =
          (Inl NetworkError, st\<lparr>server := w,
             sent := sent st @
               [post ''/api/delete_item''
                  (JObject [(''category'', JString c), (''name'', JString nm)])]\<rparr>))"
proof -
  have "post p b = \<lparr>meth = POST, path = p, headers = [(''Content-Type'', ''application/json'')],
                body = Some b\<rparr>"
    by (simp add: post_def)
  then show ?thesis
    using posts_addCategory [of st net] posts_deleteCategory [of st net cn]
      posts_addItem [of st net c nm u] posts_deleteItem [of st net c nm]
      addCategory_ok [of net st] deleteCategory_ok [of net cn st]
      addItem_ok [of net c nm u st] deleteItem_ok [of net c nm st]
      addCategory_rejected [of net st] deleteCategory_rejected [of net cn st]
      addItem_rejected [of net c nm u st] deleteItem_rejected [of net c nm st]
    by blast
qed

text \<open>
  A server side that answers every request with status 500 and no JSON: each operation still
  posts once and then fetches \<^verbatim>\<open>/api/data\<close>.
\<close>

theorem mutations_post_once_then_load_witness:
  "(let net = (\<lambda>req w. (Some \<lparr>status = 500, parsed = None\<rparr>, req # w));
        st = \<lparr>doc = \<lparr>container = (\<lparr>ident = 0, tagName = ''div'', placeholder = [], val = [],
                                      onclick = None\<rparr>, []),
                      new_cat = ''Tools'', next_id = 1, detached = []\<rparr>,
               server = [], sent = []\<rparr>
    in sent (snd (addCategory net st)) =
         [post ''/api/add_category'' (JObject [(''name'', JString ''Tools'')]), get ''/api/data'']
     \<and> sent (snd (deleteCategory net ''Tools'' st)) =
         [post ''/api/delete_category'' (JObject [(''name'', JString ''Tools'')]), get ''/api/data'']
     \<and> sent (snd (addItem net ''Tools'' ''X'' ''http://x'' st)) =
         [post ''/api/add_item'' (JObject [(''category'', JString ''Tools''), (''name'', JString ''X''),
            (''url'', JString ''http://x'')]), get ''/api/data'']
     \<and> sent (snd (deleteItem net ''Tools'' ''X'' st)) =
         [post ''/api/delete_item'' (JObject [(''category'', JString ''Tools''), (''name'', JString ''X'')]),
          get ''/api/data''])"
proof -
  let ?net = "\<lambda>(req :: request) (w :: request list). (Some \<lparr>status = 500, parsed = None\<rparr>, req # w)"
  let ?st = "\<lparr>doc = \<lparr>container = (\<lparr>ident = 0, tagName = ''div'', placeholder = [], val = [],
                                      onclick = None\<rparr>, []),
                      new_cat = ''Tools'', next_id = 1, detached = []\<rparr>,
               server = [] :: request list, sent = []\<rparr>"
  show ?thesis
    using mutations_post_once_then_load [of _ _ ?st ?net "''Tools''" "''Tools''" "''X''" "''http://x''"]
    by (simp add: sent_load)
qed

text \<open>
  The operations do not always go on to \<^verbatim>\<open>load()\<close>: on a network where every fetch rejects,
  each of them ends after its POST, and no request for \<^verbatim>\<open>/api/data\<close> follows.
\<close>

theorem rejected_post_skips_load:
  "deleteItem offline ''A'' ''i1'' \<lparr>doc = blank_page, server = (), sent = []\<rparr> =
     (Inl NetworkError,
      \<lparr>doc = blank_page, server = (),
       sent = [post ''/api/delete_item''
                 (JObject [(''category'', JString ''A''), (''name'', JString ''i1'')])]\<rparr>)
   \<and> get ''/api/data'' \<notin>
       set (sent (snd (deleteItem offline ''A'' ''i1'' \<lparr>doc = blank_page, server = (), sent = []\<rparr>)))
   \<and> get ''/api/data'' \<notin>
       set (sent (snd (addItem offline ''A'' ''i1'' ''u1'' \<lparr>doc = blank_page, server = (), sent = []\<rparr>)))
   \<and> get ''/api/data'' \<notin>
       set (sent (snd (deleteCategory offline ''A'' \<lparr>doc = blank_page, server = (), sent = []\<rparr>)))
   \<and> get ''/api/data'' \<notin>
       set (sent (snd (addCategory offline \<lparr>doc = blank_page, server = (), sent = []\<rparr>)))"
  by (simp add: deleteItem_def addItem_def deleteCategory_def addCategory_def fetch_def offline_def
        get_def post_def)

text \<open>
  C4. \<^verbatim>\<open>load\<close> has no error path. When the fetch of \<^verbatim>\<open>/api/data\<close> rejects, or its response
  is not JSON, the rejection leaves \<^verbatim>\<open>load\<close> as it came (\<open>Inl\<close>): nothing catches it. The
  page is left exactly as it was, so no diagnostic is shown: a blank page stays blank, and a
  page showing an earlier catalog keeps showing it, whatever the server holds by then.
\<close>

theorem load_failure_propagates:
  "(net (get ''/api/data'') (server st) = (None, w) \<longrightarrow>
      load net st = (Inl NetworkError, st\<lparr>server := w, sent := sent st @ [get ''/api/data'']\<rparr>)
      \<and> doc (snd (load net st)) = doc st)
   \<and> (net (get ''/api/data'') (server st) = (Some res, w) \<and> parsed res = None \<longrightarrow>
      load net st = (Inl SyntaxError, st\<lparr>server := w, sent := sent st @ [get ''/api/data'']\<rparr>)
      \<and> doc (snd (load net st)) = doc st)"
  by (simp add: load_rejected load_not_json)

text \<open>
  A network failure on a blank page, and a response that is not JSON on a page that shows an
  earlier rendering: both end in a rejection and an untouched page.
\<close>

theorem load_failure_propagates_witness:
  "(let d = \<lparr>container = (\<lparr>ident = 0, tagName = ''div'', placeholder = [], val = [],
                               onclick = None\<rparr>, []),
               new_cat = [], next_id = 1, detached = []\<rparr>;
        old = \<lparr>container = (\<lparr>ident = 0, tagName = ''div'', placeholder = [], val = [],
                               onclick = None\<rparr>, sections [(''Tools'', [])] 1),
               new_cat = [], next_id = 7, detached = []\<rparr>
    in load (\<lambda>req w. (None, w)) \<lparr>doc = d, server = (), sent = []\<rparr> =
         (Inl NetworkError, \<lparr>doc = d, server = (), sent = [get ''/api/data'']\<rparr>)
     \<and> load (\<lambda>req w. (Some \<lparr>status = 502, parsed = None\<rparr>, w)) \<lparr>doc = old, server = (), sent = []\<rparr> =
         (Inl SyntaxError, \<lparr>doc = old, server = (), sent = [get ''/api/data'']\<rparr>))"
proof -
  let ?d = "\<lparr>container = (\<lparr>ident = 0, tagName = ''div'', placeholder = [], val = [],
                               onclick = None\<rparr>, []),
               new_cat = [], next_id = 1, detached = []\<rparr>"
  let ?old = "\<lparr>container = (\<lparr>ident = 0, tagName = ''div'', placeholder = [], val = [],
                               onclick = None\<rparr>, sections [(''Tools'', [])] 1),
               new_cat = [], next_id = 7, detached = []\<rparr>"
  have "load (\<lambda>req w. (None, w)) \<lparr>doc = ?d, server = (), sent = []\<rparr> =
         (Inl NetworkError, \<lparr>doc = ?d, server = (), sent = [get ''/api/data'']\<rparr>)"
    using load_failure_propagates [of "\<lambda>req w. (None, w)" "\<lparr>doc = ?d, server = (), sent = []\<rparr>" "()",
        THEN conjunct1]
    by simp
  moreover have "load (\<lambda>req w. (Some \<lparr>status = 502, parsed = None\<rparr>, w))
           \<lparr>doc = ?old, server = (), sent = []\<rparr> =
         (Inl SyntaxError, \<lparr>doc = ?old, server = (), sent = [get ''/api/data'']\<rparr>)"
    using load_failure_propagates [of "\<lambda>req w. (Some \<lparr>status = 502, parsed = None\<rparr>, w)"
        "\<lparr>doc = ?old, server = (), sent = []\<rparr>" "()" "\<lparr>status = 502, parsed = None\<rparr>",
        THEN conjunct2]
    by simp
  ultimately show ?thesis
    by (simp add: Let_def)
qed

text \<open>
  C5. Whatever value \<open>v\<close> the input \<^verbatim>\<open>new-cat\<close> holds, the empty string included,
  \<^verbatim>\<open>addCategory\<close> issues exactly one POST, \<^verbatim>\<open>{name: v}\<close> to \<^verbatim>\<open>/api/add_category\<close>. Once the
  fetch of that POST has resolved, it sets the input's value to the empty string and then
  calls \<^verbatim>\<open>load()\<close>, which leaves the input empty. When the fetch rejects, \<^verbatim>\<open>addCategory\<close>
  rejects with it: the input keeps \<open>v\<close> and \<^verbatim>\<open>load()\<close> is not called.
\<close>

theorem addCategory_submits_clears_reloads:
  assumes "new_cat (doc st) = v"
  shows "posts st (snd (addCategory net st)) =
           [post ''/api/add_category'' (JObject [(''name'', JString v)])]
       \<and> (\<forall>res w. net (post ''/api/add_category'' (JObject [(''name'', JString v)])) (server st)
                      = (Some res, w) \<longrightarrow>
            addCategory net st =
              (Inr (), snd (load net (st\<lparr>server := w,
                 sent := sent st @ [post ''/api/add_category'' (JObject [(''name'', JString v)])],
                 doc := (doc st)\<lparr>new_cat := []\<rparr>\<rparr>)))
            \<and> sent (snd (addCategory net st)) =
                sent st @ [post ''/api/add_category'' (JObject [(''name'', JString v)]),
                           get ''/api/data'']
            \<and> new_cat (doc (snd (addCategory net st))) = [])
       \<and> (\<forall>w. net (post ''/api/add_category'' (JObject [(''name'', JString v)])) (server st)
                  = (None, w) \<longrightarrow>
            addCategory net st =
              (Inl NetworkError, st\<lparr>server := w,
                 sent := sent st @ [post ''/api/add_category'' (JObject [(''name'', JString v)])]\<rparr>)
            \<and> new_cat (doc (snd (addCategory net st))) = v)"
proof -
  have once: "posts st (snd (addCategory net st)) =
           [post ''/api/add_category'' (JObject [(''name'', JString v)])]"
    using assms posts_addCategory [of st net] by simp
  have resolved: "addCategory net st =
              (Inr (), snd (load net (st\<lparr>server := w,
                 sent := sent st @ [post ''/api/add_category'' (JObject [(''name'', JString v)])],
                 doc := (doc st)\<lparr>new_cat := []\<rparr>\<rparr>)))
            \<and> sent (snd (addCategory net st)) =
                sent st @ [post ''/api/add_category'' (JObject [(''name'', JString v)]),
                           get ''/api/data'']
            \<and> new_cat (doc (snd (addCategory net st))) = []"
    if "net (post ''/api/add_category'' (JObject [(''name'', JString v)])) (server st) = (Some res, w)"
    for res w
  proof -
    have ok: "addCategory net st =
              (Inr (), snd (load net (st\<lparr>server := w,
                 sent := sent st @ [post ''/api/add_category'' (JObject [(''name'', JString v)])],
                 doc := (doc st)\<lparr>new_cat := []\<rparr>\<rparr>)))"
      using that assms addCategory_ok [of net st res w] by simp
    show ?thesis
      by (simp add: ok sent_load new_cat_load)
  qed
  have rejected: "addCategory net st =
              (Inl NetworkError, st\<lparr>server := w,
                 sent := sent st @ [post ''/api/add_category'' (JObject [(''name'', JString v)])]\<rparr>)
            \<and> new_cat (doc (snd (addCategory net st))) = v"
    if "net (post ''/api/add_category'' (JObject [(''name'', JString v)])) (server st) = (None, w)"
    for w
    using that assms addCategory_rejected [of net st w] by simp
  from once resolved rejected show ?thesis
    by blast
qed

text \<open>
  The input holds \<^verbatim>\<open>Tools\<close>: the request carries that name, the input ends empty, and the
  reload follows. The input is empty: the request carries the empty name. The fetch rejects:
  the input still holds \<^verbatim>\<open>Tools\<close>.
\<close>

theorem addCategory_submits_clears_reloads_witness:
  "(let net = (\<lambda>req w. (Some \<lparr>status = 200, parsed = Some []\<rparr>, w @ [req]));
        st = \<lparr>doc = blank_page\<lparr>new_cat := ''Tools''\<rparr>, server = [], sent = []\<rparr>;
        empty = \<lparr>doc = blank_page, server = [], sent = []\<rparr>
    in new_cat (doc st) = ''Tools''
     \<and> sent (snd (addCategory net st)) =
         [post ''/api/add_category'' (JObject [(''name'', JString ''Tools'')]), get ''/api/data'']
     \<and> new_cat (doc (snd (addCategory net st))) = []
     \<and> new_cat (doc empty) = []
     \<and> sent (snd (addCategory net empty)) =
         [post ''/api/add_category'' (JObject [(''name'', JString [])]), get ''/api/data'']
     \<and> new_cat (doc (snd (addCategory offline st))) = ''Tools'')"
proof -
  let ?net = "\<lambda>(req :: request) (w :: request list). (Some \<lparr>status = 200, parsed = Some []\<rparr>, w @ [req])"
  let ?st = "\<lparr>doc = blank_page\<lparr>new_cat := ''Tools''\<rparr>, server = [] :: request list, sent = []\<rparr>"
  let ?empty = "\<lparr>doc = blank_page, server = [] :: request list, sent = []\<rparr>"
  have v: "new_cat (doc ?st) = ''Tools''"
    by simp
  have e: "new_cat (doc ?empty) = []"
    by (simp add: blank_page_def)
  have "sent (snd (addCategory ?net ?st)) =
          [post ''/api/add_category'' (JObject [(''name'', JString ''Tools'')]), get ''/api/data'']
      \<and> new_cat (doc (snd (addCategory ?net ?st))) = []"
    using addCategory_submits_clears_reloads [OF v, of ?net, THEN conjunct2, THEN conjunct1,
        rule_format, THEN conjunct2,
        of "\<lparr>status = 200, parsed = Some []\<rparr>"
           "[post ''/api/add_category'' (JObject [(''name'', JString ''Tools'')])]"]
    by simp
  moreover have "sent (snd (addCategory ?net ?empty)) =
          [post ''/api/add_category'' (JObject [(''name'', JString [])]), get ''/api/data'']"
    using addCategory_submits_clears_reloads [OF e, of ?net, THEN conjunct2, THEN conjunct1,
        rule_format, THEN conjunct2, THEN conjunct1,
        of "\<lparr>status = 200, parsed = Some []\<rparr>"
           "[post ''/api/add_category'' (JObject [(''name'', JString [])])]"]
    by simp
  moreover have "new_cat (doc (snd (addCategory offline ?st))) = ''Tools''"
    using addCategory_submits_clears_reloads [OF v, of offline, THEN conjunct2, THEN conjunct2,
        rule_format, THEN conjunct2, of "[]"]
    by (simp add: offline_def)
  ultimately show ?thesis
    using v e unfolding Let_def by blast
qed

text \<open>
  \<^verbatim>\<open>addCategory\<close> does not always clear the input and reload: when the fetch rejects, the
  input keeps its value and no request for \<^verbatim>\<open>/api/data\<close> follows.
\<close>

theorem rejected_addCategory_keeps_input:
  "addCategory offline \<lparr>doc = blank_page\<lparr>new_cat := ''Tools''\<rparr>, server = (), sent = []\<rparr> =
     (Inl NetworkError,
      \<lparr>doc = blank_page\<lparr>new_cat := ''Tools''\<rparr>, server = (),
       sent = [post ''/api/add_category'' (JObject [(''name'', JString ''Tools'')])]\<rparr>)
   \<and> new_cat (doc (snd (addCategory offline
         \<lparr>doc = blank_page\<lparr>new_cat := ''Tools''\<rparr>, server = (), sent = []\<rparr>))) = ''Tools''
   \<and> get ''/api/data'' \<notin> set (sent (snd (addCategory offline
         \<lparr>doc = blank_page\<lparr>new_cat := ''Tools''\<rparr>, server = (), sent = []\<rparr>)))"
  by (simp add: addCategory_def fetch_def offline_def get_def post_def)

text \<open>
  C6. \<^verbatim>\<open>load\<close> empties the container before it appends. When it gets to rendering, the
  container holds the described view of the fetched catalog and nothing else; every element
  in it was created by this call, so none of the elements that were below the container
  before (nor a handler attached to one) is in the new view, and the page is again one whose
  elements are all older than its counter. When the fetch or the parse fails, the call
  appends nothing and leaves the page as it was.
\<close>

theorem load_replaces_view:
  assumes "load net st = (r, st')"
  shows "(\<exists>e. r = Inl e \<and> doc st' = doc st)
       \<or> (\<exists>data. r = Inr ()
            \<and> snd (container (doc st')) = sections data (next_id (doc st))
            \<and> (\<forall>k \<in> set (idents_list (snd (container (doc st')))). next_id (doc st) \<le> k)
            \<and> (wf_doc (doc st) \<longrightarrow>
                 set (idents_list (snd (container (doc st')))) \<inter>
                 set (idents_list (snd (container (doc st)))) = {})
            \<and> wf_doc (doc st'))"
proof (cases rule: load_cases [of net st])
  case (rejected w)
  with assms show ?thesis by (auto simp: load_rejected)
next
  case (not_json res w)
  with assms show ?thesis by (auto simp: load_not_json)
next
  case (ok res w data)
  from assms load_ok [of net st, OF ok]
  have r: "r = Inr ()" and v: "snd (container (doc st')) = sections data (next_id (doc st))"
    and wf: "wf_doc (doc st')"
    by (auto simp: render_sections wf_doc_render [of data "doc st", unfolded render_sections])
  have fresh: "\<forall>k \<in> set (idents_list (snd (container (doc st')))). next_id (doc st) \<le> k"
    using idents_sections [of _ data "next_id (doc st)"] by (simp add: v)
  have "set (idents_list (snd (container (doc st')))) \<inter>
        set (idents_list (snd (container (doc st)))) = {}" if "wf_doc (doc st)"
    using that fresh by (fastforce simp: wf_doc_def)
  with r v wf fresh show ?thesis by blast
qed

text \<open>
  A page that shows an earlier rendering (identities 1 to 8) reloads a catalog with one empty
  category: the new view has the identities 9 to 14 and none of the earlier ones.
\<close>

theorem load_replaces_view_witness:
  "(let net = (\<lambda>req w. (Some \<lparr>status = 200, parsed = Some w\<rparr>, w));
        old = sections [(''Tools'', [\<lparr>name = ''X'', url = ''http://x''\<rparr>])] 1;
        st = \<lparr>doc = \<lparr>container = (\<lparr>ident = 0, tagName = ''div'', placeholder = [], val = [],
                                      onclick = None\<rparr>, old),
                      new_cat = [], next_id = 9, detached = []\<rparr>,
               server = [(''Tools'', [])], sent = []\<rparr>;
        new = snd (container (doc (snd (load net st))))
    in wf_doc (doc st)
     \<and> fst (load net st) = Inr ()
     \<and> new = sections [(''Tools'', [])] 9
     \<and> idents_list old = [1, 2, 3, 4, 5, 6, 7, 8]
     \<and> idents_list new = [9, 10, 11, 12, 13, 14]
     \<and> set (idents_list new) \<inter> set (idents_list old) = {})"
proof -
  let ?net = "\<lambda>(req :: request) (w :: catalog). (Some \<lparr>status = 200, parsed = Some w\<rparr>, w)"
  let ?old = "sections [(''Tools'', [\<lparr>name = ''X'', url = ''http://x''\<rparr>])] 1"
  let ?st = "\<lparr>doc = \<lparr>container = (\<lparr>ident = 0, tagName = ''div'', placeholder = [], val = [],
                                      onclick = None\<rparr>, ?old),
                      new_cat = [], next_id = 9, detached = []\<rparr>,
               server = [(''Tools'', [])], sent = []\<rparr>"
  let ?new = "snd (container (doc (snd (load ?net ?st))))"
  have old: "idents_list ?old = [1, 2, 3, 4, 5, 6, 7, 8]"
    by (simp add: idents_list_def section_of_def heading_def entry_def text_field_def button_def)
  have wf: "wf_doc (doc ?st)"
    unfolding wf_doc_def using old by simp
  have ok: "fst (load ?net ?st) = Inr ()"
    by (simp add: load_def fetch_def)
  have new: "?new = sections [(''Tools'', [])] 9"
    using load_renders_sections_aux [of ?net ?st "\<lparr>status = 200, parsed = Some [(''Tools'', [])]\<rparr>"
        "[(''Tools'', [])]" "[(''Tools'', [])]"]
    by simp
  have new_ids: "idents_list ?new = [9, 10, 11, 12, 13, 14]"
    unfolding new
    by (simp add: idents_list_def section_of_def heading_def entry_def text_field_def button_def)
  have "set (idents_list ?new) \<inter> set (idents_list ?old) = {}"
    using load_replaces_view [of ?net ?st "fst (load ?net ?st)" "snd (load ?net ?st)"] ok wf
    by auto
  with old wf ok new new_ids show ?thesis
    unfolding Let_def by blast
qed

text \<open>
  C7. Against the modelled API: \<^verbatim>\<open>deleteItem(a, n)\<close> posts the pair \<^verbatim>\<open>{category: a, name: n}\<close>,
  and a category \<open>b\<close> other than \<open>a\<close> keeps its items: the server holds it unchanged, and
  the view rendered afterwards has the section of \<open>b\<close> with exactly the items it had, also
  when one of them is named \<open>n\<close>.
\<close>

theorem deleteItem_leaves_other_category:
  assumes "a \<noteq> b" and "server st = before @ (b, its) # after"
  shows "let st' = snd (deleteItem (api other) a n st);
             i = next_id (doc st) + ids_used (delete_item a n before)
         in sent st' = sent st @
              [post ''/api/delete_item'' (JObject [(''category'', JString a), (''name'', JString n)]),
               get ''/api/data'']
          \<and> server st' = delete_item a n before @ (b, its) # delete_item a n after
          \<and> snd (container (doc st')) =
              sections (delete_item a n before) (next_id (doc st)) @ section_of b its i @
              sections (delete_item a n after) (i + 6 + 2 * length its)"
  using assms
  by (simp add: deleteItem_api render_sections delete_item_append delete_item_other sections_append
        Let_def)

text \<open>
  Categories \<^verbatim>\<open>A\<close> and \<^verbatim>\<open>B\<close> both hold an item named \<^verbatim>\<open>i1\<close>; \<^verbatim>\<open>deleteItem("A", "i1")\<close>
  empties \<^verbatim>\<open>A\<close> and leaves the entry of \<^verbatim>\<open>B\<close> in the view.
\<close>

theorem deleteItem_leaves_other_category_witness:
  "(let other = (\<lambda>req w. (None, w));
        st = \<lparr>doc = \<lparr>container = (\<lparr>ident = 0, tagName = ''div'', placeholder = [], val = [],
                                      onclick = None\<rparr>, []),
                      new_cat = [], next_id = 1, detached = []\<rparr>,
               server = [(''A'', [\<lparr>name = ''i1'', url = ''u1''\<rparr>]),
                         (''B'', [\<lparr>name = ''i1'', url = ''u2''\<rparr>])],
               sent = []\<rparr>;
        st' = snd (deleteItem (api other) ''A'' ''i1'' st)
    in sent st' =
         [post ''/api/delete_item'' (JObject [(''category'', JString ''A''), (''name'', JString ''i1'')]),
          get ''/api/data'']
     \<and> server st' = [(''A'', []), (''B'', [\<lparr>name = ''i1'', url = ''u2''\<rparr>])]
     \<and> snd (container (doc st')) =
         section_of ''A'' [] 1 @ section_of ''B'' [\<lparr>name = ''i1'', url = ''u2''\<rparr>] 7)"
proof -
  let ?other = "\<lambda>(req :: request) (w :: catalog). (None :: response option, w)"
  let ?st = "\<lparr>doc = \<lparr>container = (\<lparr>ident = 0, tagName = ''div'', placeholder = [], val = [],
                                      onclick = None\<rparr>, []),
                      new_cat = [], next_id = 1, detached = []\<rparr>,
               server = [(''A'', [\<lparr>name = ''i1'', url = ''u1''\<rparr>]),
                         (''B'', [\<lparr>name = ''i1'', url = ''u2''\<rparr>])],
               sent = []\<rparr>"
  have "''A'' \<noteq> ''B''"
    by simp
  moreover have "server ?st = [(''A'', [\<lparr>name = ''i1'', url = ''u1''\<rparr>])] @
      (''B'', [\<lparr>name = ''i1'', url = ''u2''\<rparr>]) # []"
    by simp
  ultimately have "let st' = snd (deleteItem (api ?other) ''A'' ''i1'' ?st);
             i = next_id (doc ?st) + ids_used (delete_item ''A'' ''i1'' [(''A'', [\<lparr>name = ''i1'', url = ''u1''\<rparr>])])
         in sent st' = sent ?st @
              [post ''/api/delete_item'' (JObject [(''category'', JString ''A''), (''name'', JString ''i1'')]),
               get ''/api/data'']
          \<and> server st' = delete_item ''A'' ''i1'' [(''A'', [\<lparr>name = ''i1'', url = ''u1''\<rparr>])] @
              (''B'', [\<lparr>name = ''i1'', url = ''u2''\<rparr>]) # delete_item ''A'' ''i1'' []
          \<and> snd (container (doc st')) =
              sections (delete_item ''A'' ''i1'' [(''A'', [\<lparr>name = ''i1'', url = ''u1''\<rparr>])]) (next_id (doc ?st)) @
              section_of ''B'' [\<lparr>name = ''i1'', url = ''u2''\<rparr>] i @
              sections (delete_item ''A'' ''i1'' []) (i + 6 + 2 * length [\<lparr>name = ''i1'', url = ''u2''\<rparr>])"
    by (rule deleteItem_leaves_other_category)
  then show ?thesis
    by (simp add: Let_def delete_item_def)
qed

text \<open>
  C8. Against the modelled API: calling \<^verbatim>\<open>deleteItem(c, n)\<close> a second time right after the
  first leaves the server's catalog as the first call left it, the second call's promise
  fulfils (\<open>Inr\<close>), and the view rendered after either call is the view of that same
  catalog.
\<close>

theorem deleteItem_twice_same:
  "(let first = deleteItem (api other) c n st;
        second = deleteItem (api other) c n (snd first)
    in fst second = Inr ()
     \<and> server (snd second) = server (snd first)
     \<and> snd (container (doc (snd first))) = sections (server (snd first)) (next_id (doc st))
     \<and> snd (container (doc (snd second))) =
         sections (server (snd first)) (next_id (doc (snd first))))"
  by (simp add: deleteItem_api render_sections delete_item_twice Let_def)

text \<open>
  Category \<^verbatim>\<open>A\<close> holds two items named \<^verbatim>\<open>i1\<close> and one named \<^verbatim>\<open>x\<close>: after one call and
  after two, the server holds \<^verbatim>\<open>x\<close> alone.
\<close>

theorem deleteItem_twice_same_witness:
  "(let other = (\<lambda>req w. (None, w));
        st = \<lparr>doc = \<lparr>container = (\<lparr>ident = 0, tagName = ''div'', placeholder = [], val = [],
                                      onclick = None\<rparr>, []),
                      new_cat = [], next_id = 1, detached = []\<rparr>,
               server = [(''A'', [\<lparr>name = ''i1'', url = ''u1''\<rparr>, \<lparr>name = ''x'', url = ''u2''\<rparr>,
                                  \<lparr>name = ''i1'', url = ''u3''\<rparr>])],
               sent = []\<rparr>;
        first = deleteItem (api other) ''A'' ''i1'' st;
        second = deleteItem (api other) ''A'' ''i1'' (snd first)
    in server (snd first) = [(''A'', [\<lparr>name = ''x'', url = ''u2''\<rparr>])]
     \<and> fst second = Inr ()
     \<and> server (snd second) = [(''A'', [\<lparr>name = ''x'', url = ''u2''\<rparr>])])"
proof -
  let ?other = "\<lambda>(req :: request) (w :: catalog). (None :: response option, w)"
  let ?st = "\<lparr>doc = \<lparr>container = (\<lparr>ident = 0, tagName = ''div'', placeholder = [], val = [],
                                      onclick = None\<rparr>, []),
                      new_cat = [], next_id = 1, detached = []\<rparr>,
               server = [(''A'', [\<lparr>name = ''i1'', url = ''u1''\<rparr>, \<lparr>name = ''x'', url = ''u2''\<rparr>,
                                  \<lparr>name = ''i1'', url = ''u3''\<rparr>])],
               sent = []\<rparr>"
  have first: "server (snd (deleteItem (api ?other) ''A'' ''i1'' ?st)) =
      [(''A'', [\<lparr>name = ''x'', url = ''u2''\<rparr>])]"
    by (simp add: deleteItem_api delete_item_def)
  from deleteItem_twice_same [of ?other "''A''" "''i1''" ?st] first
  show ?thesis
    by (simp add: Let_def)
qed



text \<open>
  C10. \<^verbatim>\<open>load\<close> only reads. The one request it issues is the GET of \<^verbatim>\<open>/api/data\<close>, with no
  body; it issues no POST; the server side moves only as its own handling of that GET moves it.
  So when the server side answers the GET with a catalog and stays as it is, a second \<^verbatim>\<open>load\<close>
  renders the same catalog as the first.
\<close>

theorem load_only_gets:
  "sent (snd (load net st)) = sent st @ [\<lparr>meth = GET, path = ''/api/data'', headers = [], body = None\<rparr>]
   \<and> posts st (snd (load net st)) = []
   \<and> server (snd (load net st)) = snd (net (get ''/api/data'') (server st))
   \<and> (net (get ''/api/data'') (server st) = (Some res, server st) \<and> parsed res = Some data \<longrightarrow>
        snd (container (doc (snd (load net st)))) = sections data (next_id (doc st))
        \<and> snd (container (doc (snd (load net (snd (load net st)))))) =
            sections data (next_id (doc (snd (load net st)))))"
proof -
  have "snd (container (doc (snd (load net st)))) = sections data (next_id (doc st))
        \<and> snd (container (doc (snd (load net (snd (load net st)))))) =
            sections data (next_id (doc (snd (load net st))))"
    if ok: "net (get ''/api/data'') (server st) = (Some res, server st)" "parsed res = Some data"
  proof -
    have first: "load net st =
        (Inr (), st\<lparr>server := server st, sent := sent st @ [get ''/api/data''],
                     doc := render data (doc st)\<rparr>)"
      using load_ok [of net st, OF ok] .
    have again: "net (get ''/api/data'') (server (snd (load net st))) = (Some res, server st)"
      using ok by (simp add: first)
    show ?thesis
      using load_renders_sections_aux [of net st, OF ok]
        load_renders_sections_aux [of net "snd (load net st)", OF again ok(2)]
      by simp
  qed
  then show ?thesis
    using sent_load [of net st] posts_load [of st net] server_load [of net st]
    by (simp add: get_def)
qed

text \<open>Two loads in a row against a server side that serves its catalog unchanged.\<close>

theorem load_only_gets_witness:
  "(let data = [(''A'', [\<lparr>name = ''i1'', url = ''u1''\<rparr>]), (''B'', [])];
        net = (\<lambda>req w. (Some \<lparr>status = 200, parsed = Some w\<rparr>, w));
        st = \<lparr>doc = \<lparr>container = (\<lparr>ident = 0, tagName = ''div'', placeholder = [], val = [],
                                      onclick = None\<rparr>, []),
                      new_cat = [], next_id = 1, detached = []\<rparr>,
               server = data, sent = []\<rparr>
    in sent (snd (load net (snd (load net st)))) = [get ''/api/data'', get ''/api/data'']
     \<and> snd (container (doc (snd (load net st)))) = sections data 1
     \<and> snd (container (doc (snd (load net (snd (load net st)))))) = sections data 15)"
proof -
  let ?data = "[(''A'', [\<lparr>name = ''i1'', url = ''u1''\<rparr>]), (''B'', [])]"
  let ?net = "\<lambda>(req :: request) (w :: catalog). (Some \<lparr>status = 200, parsed = Some w\<rparr>, w)"
  let ?st = "\<lparr>doc = \<lparr>container = (\<lparr>ident = 0, tagName = ''div'', placeholder = [], val = [],
                                      onclick = None\<rparr>, []),
                      new_cat = [], next_id = 1, detached = []\<rparr>,
               server = ?data, sent = []\<rparr>"
  have n: "next_id (doc (snd (load ?net ?st))) = 15"
    by (simp add: load_def fetch_def render_sections)
  have "sent (snd (load ?net (snd (load ?net ?st)))) = [get ''/api/data'', get ''/api/data'']"
    using load_only_gets [of ?net "snd (load ?net ?st)", THEN conjunct1]
      load_only_gets [of ?net ?st, THEN conjunct1]
    by (simp add: get_def)
  moreover have "snd (container (doc (snd (load ?net ?st)))) = sections ?data 1
     \<and> snd (container (doc (snd (load ?net (snd (load ?net ?st)))))) = sections ?data 15"
    using load_only_gets [of ?net ?st "\<lparr>status = 200, parsed = Some ?data\<rparr>" ?data] n
    by simp
  ultimately show ?thesis
    by (simp add: Let_def)
qed

end
